theory Spec2Isabelle
  imports Complex_Main "HOL-Library.Sublist" "HOL-Library.Log_Nat"
begin

section \<open>Data model of the two cart screens\<close>

text \<open>
  The cart logic lives in two React components.
  \<^item> \<open>CartScreen\<close> (second module of \<open>src/app/(auth)/Login.tsx\<close>) keeps
    \<open>cartItems\<close>, entries \<open>{id, title, price, image, quantity}\<close>, and has
    \<open>totalAmount\<close>, \<open>increaseQuantity\<close>, \<open>decreaseQuantity\<close>, \<open>removeItem\<close>.
  \<^item> \<open>ShoppingScreen\<close> (second module of \<open>src/app/(tabs)/profile.tsx\<close>) keeps
    \<open>cart : CartItem[]\<close> with \<open>CartItem = {product: Product; quantity: number}\<close>, and has
    \<open>getCartItem\<close>, \<open>addToCart\<close>, \<open>decreaseQuantity\<close>, \<open>removeFromCart\<close>,
    \<open>totalCartItems\<close>.

  Every state update is a pure function \<open>prev => next\<close> handed to the state setter, so each
  operation is modelled as a function from the previous list to the next one. The alert
  dialogs raised beside the update do not touch the list and are left out.

  The numbers stored in a line (identities, prices, quantities) are written as rationals.
  The handlers only add and subtract 1 on a quantity and compare it with 0, which double
  arithmetic does exactly on the whole numbers below \<open>2^53\<close>. The amount is a sum of
  products of prices and quantities and is computed in double arithmetic, modelled in the
  next section. Identities are compared with \<open>===\<close>, which is equality on the strings and
  numbers used as catalogue keys.
\<close>

type_synonym number = rat

text \<open>
  The fields of a catalogue item that both screens carry. The identity is a string in
  \<open>CartScreen\<close> and a number in \<open>ShoppingScreen\<close>, hence the type parameter; the source
  field \<open>id\<close> is named \<open>ident\<close> here, since \<open>id\<close> is the identity function of HOL, and
  \<open>image\<close> is named \<open>image_url\<close>, since \<open>image\<close> is the image of a set. The
  record is extensible: the \<open>Product\<close> of \<open>ShoppingScreen\<close> adds \<open>category\<close> and
  \<open>rating\<close>, which the cart operations never read.
\<close>

record 'id Item =
  ident :: 'id
  title :: string
  price :: number
  image_url :: string

record Rating =
  rate :: number
  count :: number

record 'id Product = "'id Item" +
  category :: string
  rating :: Rating

text \<open>
  One cart line, as \<open>CartItem\<close> of \<open>ShoppingScreen\<close> declares it. \<open>CartScreen\<close> stores the
  item's fields beside \<open>quantity\<close> in one flat object instead; its operations read only
  \<open>id\<close>, \<open>price\<close> and \<open>quantity\<close> and rebuild a line as \<open>{...item, quantity: q}\<close>, which
  is the record update of \<open>quantity\<close> here.
\<close>

record 'p CartItem =
  product :: 'p
  quantity :: number

type_synonym ('id, 'z) cart = "('id, 'z) Item_scheme CartItem list"

abbreviation line_ident :: "('id, 'z) Item_scheme CartItem \<Rightarrow> 'id" where
  "line_ident item \<equiv> ident (product item)"

section \<open>JavaScript numbers\<close>

text \<open>
  A value of the JavaScript type \<open>number\<close> is an IEEE 754 binary64: a rational of the form
  \<open>m * 2^e\<close> with \<open>\<bar>m\<bar> < 2^53\<close> and \<open>- 1074 \<le> e\<close> below \<open>2^1024\<close> in size, an
  infinity, or \<open>NaN\<close>. The two zeros are one value here: they are equal under \<open>===\<close> and
  the screens never divide.
\<close>

datatype jsnumber = Num rat | PosInfinity | NegInfinity | NaN

text \<open>The exponent \<open>e\<close> with \<open>2^e \<le> x < 2^(e + 1)\<close>, for a positive \<open>x\<close>.\<close>

definition floor_log2 :: "rat \<Rightarrow> int" where
  "floor_log2 x =
     (let (p, q) = quotient_of x; d = bitlen p - bitlen q
      in if 2 powi d \<le> x then d else d - 1)"

text \<open>The nearest integer, the even one of the two when \<open>x\<close> is halfway.\<close>

definition round_half_even :: "rat \<Rightarrow> int" where
  "round_half_even x =
     (let n = \<lfloor>x\<rfloor>; r = x - of_int n
      in if r < 1 / 2 then n else if 1 / 2 < r then n + 1 else if even n then n else n + 1)"

text \<open>
  Rounding to the nearest double, ties to even. The unit in the last place is
  \<open>2^(e - 52)\<close>, with \<open>e\<close> not below the exponent \<open>- 1022\<close> of the subnormal numbers; a
  result of size \<open>2^1024\<close> or more (exponent above 1023, or the significand rounded up to
  \<open>2^53\<close> at exponent 1023) is an infinity.
\<close>

definition to_double :: "rat \<Rightarrow> jsnumber" where
  "to_double x =
     (if x = 0 then Num 0
      else let a = \<bar>x\<bar>;
               e = max (floor_log2 a) (- 1022);
               ulp = 2 powi (e - 52);
               n = round_half_even (a / ulp)
           in if 1023 < e \<or> (e = 1023 \<and> n = 2 ^ 53)
              then (if 0 < x then PosInfinity else NegInfinity)
              else Num (if 0 < x then of_int n * ulp else - (of_int n * ulp)))"

text \<open>The operators \<open>+\<close> and \<open>*\<close> on numbers: the exact result, rounded.\<close>

fun js_add :: "jsnumber \<Rightarrow> jsnumber \<Rightarrow> jsnumber" where
  "js_add (Num x) (Num y) = to_double (x + y)"
| "js_add NaN _ = NaN"
| "js_add _ NaN = NaN"
| "js_add PosInfinity NegInfinity = NaN"
| "js_add NegInfinity PosInfinity = NaN"
| "js_add PosInfinity _ = PosInfinity"
| "js_add NegInfinity _ = NegInfinity"
| "js_add _ PosInfinity = PosInfinity"
| "js_add _ NegInfinity = NegInfinity"

fun js_mul :: "jsnumber \<Rightarrow> jsnumber \<Rightarrow> jsnumber" where
  "js_mul (Num x) (Num y) = to_double (x * y)"
| "js_mul NaN _ = NaN"
| "js_mul _ NaN = NaN"
| "js_mul (Num x) PosInfinity =
     (if x = 0 then NaN else if 0 < x then PosInfinity else NegInfinity)"
| "js_mul (Num x) NegInfinity =
     (if x = 0 then NaN else if 0 < x then NegInfinity else PosInfinity)"
| "js_mul PosInfinity (Num y) =
     (if y = 0 then NaN else if 0 < y then PosInfinity else NegInfinity)"
| "js_mul NegInfinity (Num y) =
     (if y = 0 then NaN else if 0 < y then NegInfinity else PosInfinity)"
| "js_mul PosInfinity PosInfinity = PosInfinity"
| "js_mul NegInfinity NegInfinity = PosInfinity"
| "js_mul PosInfinity NegInfinity = NegInfinity"
| "js_mul NegInfinity PosInfinity = NegInfinity"

text \<open>
  The two object layouts that the one record \<open>CartItem\<close> stands for. A \<open>Flat\<close> line is
  an entry of \<open>cartItems\<close> in \<open>CartScreen\<close>, with \<open>price\<close> as a property of its own. A
  \<open>Nested\<close> line is an entry of \<open>cart\<close> in \<open>ShoppingScreen\<close>, \<open>{product, quantity}\<close>:
  there \<open>item.price\<close> is \<open>undefined\<close>, which \<open>*\<close> converts to \<open>NaN\<close>.
\<close>

datatype line_shape = Flat | Nested

fun item_price :: "line_shape \<Rightarrow> ('id, 'z) Item_scheme CartItem \<Rightarrow> jsnumber" where
  "item_price Flat item = to_double (price (product item))"
| "item_price Nested item = NaN"

section \<open>CartScreen\<close>

text \<open>The state \<open>cartItems\<close> starts as \<open>initialCartItems\<close>.\<close>

definition initialCartItems :: "(string, unit) cart" where
  "initialCartItems =
     [\<lparr>product = \<lparr>ident = ''1'', title = ''Fjallraven Backpack'', price = 109.95,
         image_url = ''https://fakestoreapi.com/img/81fPKd-2AYL._AC_SL1500_.jpg''\<rparr>,
       quantity = 1\<rparr>,
      \<lparr>product = \<lparr>ident = ''2'', title = ''Mens Casual Slim Fit'', price = 15.99,
         image_url = ''https://fakestoreapi.com/img/71YXzeOuslL._AC_UY879_.jpg''\<rparr>,
       quantity = 1\<rparr>,
      \<lparr>product = \<lparr>ident = ''3'', title = ''Solid Gold Petite Micropave'', price = 168.0,
         image_url = ''https://fakestoreapi.com/img/61sbMiUnoGL._AC_UL640_QL65_ML3_.jpg''\<rparr>,
       quantity = 1\<rparr>]"

text \<open>
  \<open>cartItems.reduce((sum, item) => sum + item.price * item.quantity, 0)\<close>, on a list
  of lines of the given layout.
\<close>

definition totalAmount :: "line_shape \<Rightarrow> ('id, 'z) cart \<Rightarrow> jsnumber" where
  "totalAmount shape cartItems =
     foldl (\<lambda>sum item. js_add sum (js_mul (item_price shape item) (to_double (quantity item))))
       (Num 0) cartItems"

text \<open>
  One render of \<open>CartScreen\<close> as a step on the state: it reads \<open>cartItems\<close>, binds
  \<open>totalAmount\<close> and calls no setter, so it returns the state it was given, with the total
  it shows.
\<close>

definition CartScreen :: "('id, 'z) cart \<Rightarrow> ('id, 'z) cart \<times> jsnumber" where
  "CartScreen cartItems = (cartItems, totalAmount Flat cartItems)"

text \<open>\<open>prev.map(item => item.id === id ? { ...item, quantity: item.quantity + 1 } : item)\<close>\<close>

definition increaseQuantity :: "'id \<Rightarrow> ('id, 'z) cart \<Rightarrow> ('id, 'z) cart" where
  "increaseQuantity i prev =
     map (\<lambda>item. if ident (product item) = i
                  then item\<lparr>quantity := quantity item + 1\<rparr> else item) prev"

text \<open>
  \<open>decreaseQuantity\<close> of \<open>CartScreen\<close>: the new quantity is \<open>quantity - 1\<close> when that is
  positive and 1 otherwise; the line always stays.
\<close>

definition decreaseQuantity_Cart :: "'id \<Rightarrow> ('id, 'z) cart \<Rightarrow> ('id, 'z) cart" where
  "decreaseQuantity_Cart i prev =
     map (\<lambda>item. if ident (product item) = i
                  then (let newQuantity = quantity item - 1
                        in item\<lparr>quantity := (if newQuantity > 0 then newQuantity else 1)\<rparr>)
                  else item) prev"

text \<open>\<open>prev.filter(item => item.id !== id)\<close>\<close>

definition removeItem :: "'id \<Rightarrow> ('id, 'z) cart \<Rightarrow> ('id, 'z) cart" where
  "removeItem i prev = filter (\<lambda>item. ident (product item) \<noteq> i) prev"

section \<open>ShoppingScreen\<close>

text \<open>\<open>cart.find(item => item.product.id === productId)\<close>\<close>

definition getCartItem ::
  "('id, 'z) cart \<Rightarrow> 'id \<Rightarrow> ('id, 'z) Item_scheme CartItem option" where
  "getCartItem cart productId = find (\<lambda>item. ident (product item) = productId) cart"

text \<open>
  The state \<open>cart\<close> starts as the empty list.

  \<open>addToCart\<close>: when \<open>find\<close> returns a line for the product's id (an object, which
  \<open>if (existing)\<close> takes as true), every line with that id gets \<open>quantity + 1\<close>;
  when it returns \<open>undefined\<close>, \<open>{ product, quantity: 1 }\<close> is appended.
\<close>

definition addToCart :: "('id, 'z) Item_scheme \<Rightarrow> ('id, 'z) cart \<Rightarrow> ('id, 'z) cart" where
  "addToCart p prev =
     (case find (\<lambda>item. ident (product item) = ident p) prev of
        Some existing \<Rightarrow>
          map (\<lambda>item. if ident (product item) = ident p
                       then item\<lparr>quantity := quantity item + 1\<rparr> else item) prev
      | None \<Rightarrow> prev @ [\<lparr>product = p, quantity = 1\<rparr>])"

text \<open>
  \<open>decreaseQuantity\<close> of \<open>ShoppingScreen\<close>: subtract 1 on the lines with the id, then keep
  the lines of the whole list whose quantity is positive.
\<close>

definition decreaseQuantity_Shopping :: "'id \<Rightarrow> ('id, 'z) cart \<Rightarrow> ('id, 'z) cart" where
  "decreaseQuantity_Shopping productId prev =
     filter (\<lambda>item. quantity item > 0)
       (map (\<lambda>item. if ident (product item) = productId
                     then item\<lparr>quantity := quantity item - 1\<rparr> else item) prev)"

text \<open>\<open>prev.filter(item => item.product.id !== productId)\<close>\<close>

definition removeFromCart :: "'id \<Rightarrow> ('id, 'z) cart \<Rightarrow> ('id, 'z) cart" where
  "removeFromCart productId prev = filter (\<lambda>item. ident (product item) \<noteq> productId) prev"

text \<open>\<open>cart.reduce((sum, item) => sum + item.quantity, 0)\<close>\<close>

definition totalCartItems :: "('id, 'z) cart \<Rightarrow> number" where
  "totalCartItems cart = foldl (\<lambda>sum item. sum + quantity item) 0 cart"

text \<open>
  One render of \<open>ShoppingScreen\<close> as a step on the state: it reads \<open>cart\<close>, binds
  \<open>totalCartItems\<close> and calls no setter.
\<close>

definition ShoppingScreen :: "('id, 'z) cart \<Rightarrow> ('id, 'z) cart \<times> number" where
  "ShoppingScreen cart = (cart, totalCartItems cart)"

section \<open>Sequences of operations\<close>

text \<open>
  The user's presses, one constructor per handler: \<open>addToCart\<close>, \<open>increaseQuantity\<close>,
  the two \<open>decreaseQuantity\<close> (clamping in \<open>CartScreen\<close>, removing at zero in
  \<open>ShoppingScreen\<close>), \<open>removeItem\<close> and \<open>removeFromCart\<close>. \<open>run c ops\<close> is the list
  the state holds after the presses \<open>ops\<close>, in order, starting from \<open>c\<close>.
\<close>

datatype ('id, 'z) operation =
    AddOrIncrement "('id, 'z) Item_scheme"
  | Increment 'id
  | Decrement_clamp 'id
  | Decrement_removeAtZero 'id
  | Remove_Cart 'id
  | Remove_Shopping 'id

fun apply_operation :: "('id, 'z) cart \<Rightarrow> ('id, 'z) operation \<Rightarrow> ('id, 'z) cart" where
  "apply_operation c (AddOrIncrement p) = addToCart p c"
| "apply_operation c (Increment i) = increaseQuantity i c"
| "apply_operation c (Decrement_clamp i) = decreaseQuantity_Cart i c"
| "apply_operation c (Decrement_removeAtZero i) = decreaseQuantity_Shopping i c"
| "apply_operation c (Remove_Cart i) = removeItem i c"
| "apply_operation c (Remove_Shopping i) = removeFromCart i c"

definition run :: "('id, 'z) cart \<Rightarrow> ('id, 'z) operation list \<Rightarrow> ('id, 'z) cart" where
  "run c ops = foldl apply_operation c ops"

text \<open>
  The quantities the operations produce from 1 by adding and subtracting 1: the whole
  numbers from 1 on. This is the invariant that the induction over a run carries.
\<close>

definition counted :: "number \<Rightarrow> bool" where
  "counted q \<longleftrightarrow> q \<in> \<int> \<and> 1 \<le> q"

text \<open>
  A rational that is a double, and a list on which the amount is computed without
  rounding: every price, quantity, product and partial sum, from the sum \<open>s\<close> so far, is
  a double.
\<close>

definition is_double :: "rat \<Rightarrow> bool" where
  "is_double x \<longleftrightarrow> to_double x = Num x"

fun no_rounding :: "rat \<Rightarrow> ('id, 'z) cart \<Rightarrow> bool" where
  "no_rounding s [] = True"
| "no_rounding s (item # rest) =
     (is_double (price (product item)) \<and> is_double (quantity item)
      \<and> is_double (price (product item) * quantity item)
      \<and> is_double (s + price (product item) * quantity item)
      \<and> no_rounding (s + price (product item) * quantity item) rest)"

section \<open>Totals\<close>

lemma foldl_plus_sum_list:
  "foldl (\<lambda>sum item. sum + f item) a xs = a + sum_list (map f xs)"
  for a :: number
  by (induction xs arbitrary: a) (simp_all add: add.assoc)

lemma totalAmount_no_rounding:
  "no_rounding s c \<Longrightarrow>
   foldl (\<lambda>sum item. js_add sum (js_mul (item_price Flat item) (to_double (quantity item))))
     (Num s) c
   = Num (s + (\<Sum>l\<leftarrow>c. price (product l) * quantity l))"
proof (induction c arbitrary: s)
  case Nil
  show ?case by simp
next
  case (Cons item rest)
  let ?pq = "price (product item) * quantity item"
  from Cons.prems have p: "to_double (price (product item)) = Num (price (product item))"
    and q: "to_double (quantity item) = Num (quantity item)"
    and pq: "to_double ?pq = Num ?pq"
    and sum: "to_double (s + ?pq) = Num (s + ?pq)"
    and rest: "no_rounding (s + ?pq) rest"
    by (simp_all add: is_double_def)
  have "js_add (Num s) (js_mul (item_price Flat item) (to_double (quantity item)))
          = Num (s + ?pq)"
    by (simp add: p q pq sum)
  with Cons.IH [OF rest] show ?case
    by (simp add: add.assoc)
qed

text \<open>
  Claim C1, as amended. \<open>totalAmount\<close> is the sum of price times quantity taken line by
  line in double arithmetic: it is the exact sum over the lines when no product and no
  partial sum is rounded, and can differ from it otherwise. \<open>totalCartItems\<close> is the sum
  of the quantities. A render of either screen computes its total and returns the cart
  it was given. All of this holds for every list of lines, hence for every cart that
  operations reach from the empty cart.
\<close>

theorem totals_are_sums:
  "(no_rounding 0 c \<longrightarrow>
      snd (CartScreen c) = Num (\<Sum>l\<leftarrow>c. price (product l) * quantity l))
   \<and> snd (ShoppingScreen c') = (\<Sum>l\<leftarrow>c'. quantity l)
   \<and> fst (CartScreen c) = c
   \<and> fst (ShoppingScreen c') = c'"
  using totalAmount_no_rounding [of 0 c]
  by (simp add: CartScreen_def ShoppingScreen_def totalAmount_def totalCartItems_def
        foldl_plus_sum_list)

text \<open>
  Witness for C1: two lines of \<open>CartScreen\<close> with prices 10.00 and 5.50, at quantities
  2 and 1.
\<close>

theorem totals_are_sums_witness:
  "snd (CartScreen
     [\<lparr>product = \<lparr>ident = ''1'', title = ''a'', price = 10.00, image_url = ''x''\<rparr>,
        quantity = 2\<rparr>,
      \<lparr>product = \<lparr>ident = ''2'', title = ''b'', price = 5.50, image_url = ''y''\<rparr>,
        quantity = 1\<rparr>]) = Num 25.50"
proof -
  have exact: "no_rounding 0
     [\<lparr>product = \<lparr>ident = ''1'', title = ''a'', price = 10.00, image_url = ''x''\<rparr>,
        quantity = 2\<rparr>,
      \<lparr>product = \<lparr>ident = ''2'', title = ''b'', price = 5.50, image_url = ''y''\<rparr>,
        quantity = 1\<rparr>]"
    by code_simp
  show ?thesis
    using exact totals_are_sums
      [of "[\<lparr>product = \<lparr>ident = ''1'', title = ''a'', price = 10.00, image_url = ''x''\<rparr>,
              quantity = 2\<rparr>,
            \<lparr>product = \<lparr>ident = ''2'', title = ''b'', price = 5.50, image_url = ''y''\<rparr>,
              quantity = 1\<rparr>]"
           "[] :: (string, unit) cart"]
    by simp
qed

text \<open>
  Counterexample to C1 as stated. The cart is reached from the empty cart by adding the
  three items of \<open>initialCartItems\<close> and increasing the second one three times; it is
  the state of \<open>CartScreen\<close> after three presses of \<open>+\<close> on its second line. The lines
  are 109.95 at 1, 15.99 at 4 and 168.0 at 1, with the exact sum 341.91. The total
  computed is the double 341.90999999999997, which is neither 341.91 nor the double
  nearest to 341.91.
\<close>

theorem totals_are_sums_counterexample:
  "run [] (map (\<lambda>l. AddOrIncrement (product l)) initialCartItems
            @ [Increment ''2'', Increment ''2'', Increment ''2''])
     = run initialCartItems [Increment ''2'', Increment ''2'', Increment ''2'']
   \<and> (\<Sum>l\<leftarrow>run initialCartItems [Increment ''2'', Increment ''2'', Increment ''2''].
         price (product l) * quantity l) = 341.91
   \<and> snd (CartScreen (run initialCartItems [Increment ''2'', Increment ''2'', Increment ''2'']))
       = Num (3007472165223137 / 8796093022208)
   \<and> snd (CartScreen (run initialCartItems [Increment ''2'', Increment ''2'', Increment ''2'']))
       \<noteq> Num 341.91
   \<and> snd (CartScreen (run initialCartItems [Increment ''2'', Increment ''2'', Increment ''2'']))
       \<noteq> to_double 341.91"
proof -
  have amount: "js_add (js_add (js_add (Num 0) (js_mul (to_double 109.95) (to_double 1)))
                   (js_mul (to_double 15.99) (to_double 4)))
                  (js_mul (to_double 168.0) (to_double 1))
                = Num (3007472165223137 / 8796093022208)"
    by code_simp
  have nearest: "to_double 341.91 = Num (6014944330446275 / 17592186044416)"
    by code_simp
  have reached: "run [] (map (\<lambda>l. AddOrIncrement (product l)) initialCartItems
            @ [Increment ''2'', Increment ''2'', Increment ''2''])
     = run initialCartItems [Increment ''2'', Increment ''2'', Increment ''2'']"
    by (simp add: run_def initialCartItems_def addToCart_def increaseQuantity_def)
  have total: "snd (CartScreen
       (run initialCartItems [Increment ''2'', Increment ''2'', Increment ''2'']))
     = Num (3007472165223137 / 8796093022208)"
    using amount
    by (simp add: CartScreen_def run_def increaseQuantity_def initialCartItems_def
          totalAmount_def)
  have exact: "(\<Sum>l\<leftarrow>run initialCartItems [Increment ''2'', Increment ''2'', Increment ''2''].
         price (product l) * quantity l) = 341.91"
    by (simp add: run_def increaseQuantity_def initialCartItems_def)
  show ?thesis
    unfolding total nearest using reached exact by simp
qed

section \<open>Identity uniqueness\<close>

lemma ids_map_quantity:
  "map line_ident (map (\<lambda>item. if P item then item\<lparr>quantity := g item\<rparr> else item) c)
     = map line_ident c"
  by (induction c) simp_all

lemma ids_increaseQuantity: "map line_ident (increaseQuantity i c) = map line_ident c"
  unfolding increaseQuantity_def by (rule ids_map_quantity)

lemma ids_decreaseQuantity_Cart: "map line_ident (decreaseQuantity_Cart i c) = map line_ident c"
  unfolding decreaseQuantity_Cart_def Let_def by (rule ids_map_quantity)

lemma distinct_addToCart:
  assumes "distinct (map line_ident c)"
  shows "distinct (map line_ident (addToCart p c))"
proof (cases "find (\<lambda>item. line_ident item = ident p) c")
  case None
  then have "ident p \<notin> line_ident ` set c"
    by (auto simp: find_None_iff)
  with assms None show ?thesis
    by (simp add: addToCart_def)
next
  case (Some existing)
  then have "addToCart p c =
      map (\<lambda>item. if line_ident item = ident p
                   then item\<lparr>quantity := quantity item + 1\<rparr> else item) c"
    by (simp add: addToCart_def)
  with assms show ?thesis
    by (simp only: ids_map_quantity)
qed

lemma distinct_decreaseQuantity_Shopping:
  assumes "distinct (map line_ident c)"
  shows "distinct (map line_ident (decreaseQuantity_Shopping i c))"
  unfolding decreaseQuantity_Shopping_def
proof (rule distinct_map_filter)
  show "distinct (map line_ident (map (\<lambda>item. if line_ident item = i
          then item\<lparr>quantity := quantity item - 1\<rparr> else item) c))"
    using assms by (simp only: ids_map_quantity)
qed

lemma distinct_apply_operation:
  "distinct (map line_ident c) \<Longrightarrow> distinct (map line_ident (apply_operation c x))"
  by (cases x)
     (simp_all add: distinct_addToCart ids_increaseQuantity ids_decreaseQuantity_Cart
        distinct_decreaseQuantity_Shopping removeItem_def removeFromCart_def distinct_map_filter)

lemma distinct_run:
  "distinct (map line_ident c) \<Longrightarrow> distinct (map line_ident (run c ops))"
  unfolding run_def
  by (induction ops arbitrary: c) (simp_all add: distinct_apply_operation)

lemma distinct_initialCartItems: "distinct (map line_ident initialCartItems)"
  by (simp add: initialCartItems_def)

text \<open>
  Claim C2. After any finite sequence of operations from the empty cart, no two lines of
  the cart have the same identity.
\<close>

theorem identity_unique: "distinct (map line_ident (run [] ops))"
  by (rule distinct_run) simp

section \<open>Quantity floor\<close>

lemma counted_1: "counted 1"
  by (simp add: counted_def)

lemma counted_Suc: "counted q \<Longrightarrow> counted (q + 1)"
  by (simp add: counted_def)

lemma counted_pred:
  assumes q: "counted q" and pos: "0 < q - 1"
  shows "counted (q - 1)"
proof -
  from q obtain z :: int where z: "q = of_int z"
    by (auto simp: counted_def elim: Ints_cases)
  from pos z have "1 < z" by simp
  then have "1 \<le> z - 1" by simp
  then have "(1::rat) \<le> of_int (z - 1)" by (simp only: of_int_1_le_iff)
  with z show ?thesis by (simp add: counted_def)
qed

lemma counted_apply_operation:
  assumes "\<forall>l \<in> set c. counted (quantity l)"
  shows "\<forall>l \<in> set (apply_operation c x). counted (quantity l)"
proof (cases x)
  case (AddOrIncrement p)
  with assms show ?thesis
    by (auto simp: addToCart_def counted_1 counted_Suc split: option.splits)
next
  case (Increment i)
  with assms show ?thesis
    by (auto simp: increaseQuantity_def counted_Suc)
next
  case (Decrement_clamp i)
  with assms show ?thesis
    by (auto simp: decreaseQuantity_Cart_def Let_def counted_1 counted_pred)
next
  case (Decrement_removeAtZero i)
  with assms show ?thesis
    by (auto simp: decreaseQuantity_Shopping_def counted_pred)
next
  case (Remove_Cart i)
  with assms show ?thesis by (simp add: removeItem_def)
next
  case (Remove_Shopping i)
  with assms show ?thesis by (simp add: removeFromCart_def)
qed

lemma counted_run:
  "\<forall>l \<in> set c. counted (quantity l) \<Longrightarrow> \<forall>l \<in> set (run c ops). counted (quantity l)"
  unfolding run_def
proof (induction ops arbitrary: c)
  case Nil
  then show ?case by simp
next
  case (Cons x ops)
  from Cons.prems have "\<forall>l \<in> set (apply_operation c x). counted (quantity l)"
    by (rule counted_apply_operation)
  then show ?case
    using Cons.IH by simp
qed

lemma counted_initialCartItems: "\<forall>l \<in> set initialCartItems. counted (quantity l)"
  by (simp add: initialCartItems_def counted_1)

text \<open>
  Both start states satisfy the two invariants, and every operation keeps them: each
  list that either screen can hold has pairwise different identities and quantities of
  at least 1.
\<close>

lemma run_invariants:
  assumes "distinct (map line_ident c)" and "\<forall>l \<in> set c. counted (quantity l)"
  shows "distinct (map line_ident (run c ops)) \<and> (\<forall>l \<in> set (run c ops). 1 \<le> quantity l)"
  using distinct_run [OF assms(1), of ops] counted_run [OF assms(2), of ops]
  by (simp add: counted_def)

lemma CartScreen_invariants:
  "distinct (map line_ident (run initialCartItems ops))
   \<and> (\<forall>l \<in> set (run initialCartItems ops). 1 \<le> quantity l)"
  using distinct_initialCartItems counted_initialCartItems by (rule run_invariants)

text \<open>
  Claim C9. After any finite sequence of operations from the empty cart, every line of
  the cart has quantity at least 1: the clamping decrement writes 1 where the new
  quantity would not be positive, and the removing decrement drops the line.
\<close>

theorem quantity_floor: "\<forall>l \<in> set (run [] ops). 1 \<le> quantity l"
  using counted_run [of "[]" ops] by (simp add: counted_def)

text \<open>Witness for C9: one item added, decreased, increased and decreased again.\<close>

theorem quantity_floor_witness:
  "run [] [AddOrIncrement \<lparr>ident = (1::number), title = ''a'', price = 10.00, image_url = ''x''\<rparr>,
           Decrement_clamp 1, Increment 1, Decrement_removeAtZero 1]
     = [\<lparr>product = \<lparr>ident = 1, title = ''a'', price = 10.00, image_url = ''x''\<rparr>, quantity = 1\<rparr>]
   \<and> 1 \<le> quantity (hd (run []
       [AddOrIncrement \<lparr>ident = (1::number), title = ''a'', price = 10.00, image_url = ''x''\<rparr>,
        Decrement_clamp 1, Increment 1, Decrement_removeAtZero 1]))"
  using quantity_floor
    [of "[AddOrIncrement \<lparr>ident = (1::number), title = ''a'', price = 10.00, image_url = ''x''\<rparr>,
          Decrement_clamp 1, Increment 1, Decrement_removeAtZero 1]"]
  by (simp add: run_def addToCart_def decreaseQuantity_Cart_def increaseQuantity_def
        decreaseQuantity_Shopping_def)

section \<open>Adding an item twice\<close>

lemma find_ident_None:
  "(find (\<lambda>item. line_ident item = i) c = None) = (\<forall>l \<in> set c. line_ident l \<noteq> i)"
  by (auto simp: find_None_iff)

lemma map_quantity_absent:
  "\<forall>l \<in> set c. line_ident l \<noteq> k \<Longrightarrow>
   map (\<lambda>item. if line_ident item = k then f item else item) c = c"
  by (induction c) simp_all

lemma filter_ident_absent:
  "\<forall>l \<in> set c. line_ident l \<noteq> k \<Longrightarrow> filter (\<lambda>item. line_ident item \<noteq> k) c = c"
  by (induction c) simp_all

lemma filter_positive_all:
  "\<forall>l \<in> set c. 0 < quantity l \<Longrightarrow> filter (\<lambda>item. quantity item > 0) c = c"
  by (induction c) simp_all

text \<open>
  Claim C3. For every item \<open>A\<close> and every cart in which no line has \<open>A\<close>'s identity,
  \<open>addToCart A\<close> applied twice gives the old lines, untouched, followed by one line for
  \<open>A\<close> with quantity 2; so the lines of the result whose identity is \<open>A\<close>'s are exactly
  that one line.
\<close>

theorem addToCart_twice:
  assumes "\<forall>l \<in> set c. line_ident l \<noteq> ident A"
  shows "addToCart A (addToCart A c) = c @ [\<lparr>product = A, quantity = 2\<rparr>]
       \<and> filter (\<lambda>l. line_ident l = ident A) (addToCart A (addToCart A c))
           = [\<lparr>product = A, quantity = 2\<rparr>]"
proof -
  have absent: "find (\<lambda>item. line_ident item = ident A) c = None"
    using assms by (simp add: find_ident_None)
  have first: "addToCart A c = c @ [\<lparr>product = A, quantity = 1\<rparr>]"
    by (simp add: addToCart_def absent)
  have present: "find (\<lambda>item. line_ident item = ident A)
                   (c @ [\<lparr>product = A, quantity = 1\<rparr>]) \<noteq> None"
    by (auto simp: find_None_iff)
  have same: "map (\<lambda>item. if line_ident item = ident A
                     then item\<lparr>quantity := quantity item + 1\<rparr> else item) c = c"
    using assms by (rule map_quantity_absent)
  have second: "addToCart A (c @ [\<lparr>product = A, quantity = 1\<rparr>])
                  = c @ [\<lparr>product = A, quantity = 2\<rparr>]"
    using present by (auto simp: addToCart_def same split: option.splits)
  have none: "filter (\<lambda>l. line_ident l = ident A) c = []"
    using assms by (simp add: filter_empty_conv)
  show ?thesis
    by (simp add: first second none)
qed

text \<open>Witness for C3: item 2 added twice to a cart that holds item 1.\<close>

theorem addToCart_twice_witness:
  "addToCart \<lparr>ident = (2::number), title = ''b'', price = 5.50, image_url = ''y''\<rparr>
     (addToCart \<lparr>ident = 2, title = ''b'', price = 5.50, image_url = ''y''\<rparr>
        [\<lparr>product = \<lparr>ident = 1, title = ''a'', price = 10.00, image_url = ''x''\<rparr>,
          quantity = 1\<rparr>])
   = [\<lparr>product = \<lparr>ident = 1, title = ''a'', price = 10.00, image_url = ''x''\<rparr>, quantity = 1\<rparr>,
      \<lparr>product = \<lparr>ident = 2, title = ''b'', price = 5.50, image_url = ''y''\<rparr>, quantity = 2\<rparr>]"
  using addToCart_twice
    [of "[\<lparr>product = \<lparr>ident = (1::number), title = ''a'', price = 10.00, image_url = ''x''\<rparr>,
           quantity = 1\<rparr>]"
        "\<lparr>ident = 2, title = ''b'', price = 5.50, image_url = ''y''\<rparr>"]
  by simp

section \<open>Decrement at the floor\<close>

text \<open>
  Claim C4. In \<open>CartScreen\<close>, on a cart that holds only a line for \<open>A\<close> at quantity 1,
  any number \<open>n\<close> of \<open>decreaseQuantity A\<close> leaves the cart as it was: the line is still
  there and its quantity is still 1.
\<close>

theorem decreaseQuantity_Cart_at_floor:
  assumes "line_ident l = A" and "quantity l = 1"
  shows "(decreaseQuantity_Cart A ^^ n) [l] = [l]"
proof (induction n)
  case 0
  show ?case by simp
next
  case (Suc n)
  have "decreaseQuantity_Cart A [l] = [l]"
    using assms by (simp add: decreaseQuantity_Cart_def)
  with Suc show ?case by simp
qed

text \<open>Witness for C4: three decrements of the first line of \<open>initialCartItems\<close>.\<close>

theorem decreaseQuantity_Cart_at_floor_witness:
  "(decreaseQuantity_Cart ''1'' ^^ 3) [hd initialCartItems] = [hd initialCartItems]
   \<and> map quantity ((decreaseQuantity_Cart ''1'' ^^ 3) [hd initialCartItems]) = [1]"
  using decreaseQuantity_Cart_at_floor [of "hd initialCartItems" "''1''" 3]
  by (simp add: initialCartItems_def)

lemma decreaseQuantity_Shopping_drops:
  assumes "distinct (map line_ident c)" and "l \<in> set c"
    and "line_ident l = A" and "quantity l = 1"
  shows "\<forall>l' \<in> set (decreaseQuantity_Shopping A c). line_ident l' \<noteq> A"
proof -
  have only: "l' = l" if "l' \<in> set c" and "line_ident l' = A" for l'
    using assms(1-3) that by (auto simp: distinct_map inj_on_def)
  show ?thesis
    unfolding decreaseQuantity_Shopping_def
  proof
    fix l'
    assume "l' \<in> set (filter (\<lambda>item. quantity item > 0)
       (map (\<lambda>item. if line_ident item = A
                     then item\<lparr>quantity := quantity item - 1\<rparr> else item) c))"
    then obtain x where x: "x \<in> set c" and pos: "0 < quantity l'"
      and l': "l' = (if line_ident x = A then x\<lparr>quantity := quantity x - 1\<rparr> else x)"
      by auto
    show "line_ident l' \<noteq> A"
    proof (cases "line_ident x = A")
      case True
      with x have "x = l" by (rule only)
      with assms(4) l' True pos show ?thesis by simp
    next
      case False
      with l' show ?thesis by simp
    qed
  qed
qed

lemma decreaseQuantity_Shopping_positive:
  "\<forall>l \<in> set (decreaseQuantity_Shopping A c). 0 < quantity l"
  by (simp add: decreaseQuantity_Shopping_def)

lemma decreaseQuantity_Shopping_absent:
  assumes "\<forall>l \<in> set c. line_ident l \<noteq> k" and "\<forall>l \<in> set c. 0 < quantity l"
  shows "decreaseQuantity_Shopping k c = c"
  using assms by (simp add: decreaseQuantity_Shopping_def map_quantity_absent filter_positive_all)

lemma decreaseQuantity_Shopping_twice:
  assumes "distinct (map line_ident c)" and "l \<in> set c"
    and "line_ident l = A" and "quantity l = 1"
  shows "(\<forall>l' \<in> set (decreaseQuantity_Shopping A c). line_ident l' \<noteq> A)
       \<and> decreaseQuantity_Shopping A (decreaseQuantity_Shopping A c)
           = decreaseQuantity_Shopping A c"
proof -
  have gone: "\<forall>l' \<in> set (decreaseQuantity_Shopping A c). line_ident l' \<noteq> A"
    using assms by (rule decreaseQuantity_Shopping_drops)
  then have "decreaseQuantity_Shopping A (decreaseQuantity_Shopping A c)
               = decreaseQuantity_Shopping A c"
    using decreaseQuantity_Shopping_positive by (rule decreaseQuantity_Shopping_absent)
  with gone show ?thesis by simp
qed

text \<open>
  Claim C5. In \<open>ShoppingScreen\<close>, on a cart that holds a line for \<open>A\<close> with quantity 1,
  \<open>decreaseQuantity A\<close> gives a cart with no line for \<open>A\<close>, and a second
  \<open>decreaseQuantity A\<close> returns that cart unchanged. This holds on every list with at
  most one line per identity (the uniqueness invariant of a cart), and so on every cart
  that operations reach from the empty cart. The operation is a total function, so there
  is no failure to signal.
\<close>

theorem decreaseQuantity_Shopping_at_one:
  assumes "l \<in> set c" and "line_ident l = A" and "quantity l = 1"
  shows "(distinct (map line_ident c) \<longrightarrow>
            (\<forall>l' \<in> set (decreaseQuantity_Shopping A c). line_ident l' \<noteq> A)
          \<and> decreaseQuantity_Shopping A (decreaseQuantity_Shopping A c)
               = decreaseQuantity_Shopping A c)
       \<and> (\<forall>ops. c = run [] ops \<longrightarrow>
            (\<forall>l' \<in> set (decreaseQuantity_Shopping A c). line_ident l' \<noteq> A)
          \<and> decreaseQuantity_Shopping A (decreaseQuantity_Shopping A c)
               = decreaseQuantity_Shopping A c)"
proof -
  have "distinct (map line_ident c)" if "c = run [] ops" for ops
    unfolding that by (rule distinct_run) simp
  then show ?thesis
    using decreaseQuantity_Shopping_twice [OF _ assms] by blast
qed

text \<open>Witness for C5: item 1 at quantity 1 beside item 2 at quantity 3.\<close>

theorem decreaseQuantity_Shopping_at_one_witness:
  "decreaseQuantity_Shopping (1::number)
     [\<lparr>product = \<lparr>ident = 1, title = ''a'', price = 10.00, image_url = ''x''\<rparr>, quantity = 1\<rparr>,
      \<lparr>product = \<lparr>ident = 2, title = ''b'', price = 5.50, image_url = ''y''\<rparr>, quantity = 3\<rparr>]
   = [\<lparr>product = \<lparr>ident = 2, title = ''b'', price = 5.50, image_url = ''y''\<rparr>, quantity = 3\<rparr>]
   \<and> decreaseQuantity_Shopping 1
       [\<lparr>product = \<lparr>ident = (2::number), title = ''b'', price = 5.50, image_url = ''y''\<rparr>,
         quantity = 3\<rparr>]
   = [\<lparr>product = \<lparr>ident = 2, title = ''b'', price = 5.50, image_url = ''y''\<rparr>, quantity = 3\<rparr>]"
  using decreaseQuantity_Shopping_at_one
    [where c = "[\<lparr>product = \<lparr>ident = (1::number), title = ''a'', price = 10.00,
                    image_url = ''x''\<rparr>, quantity = 1\<rparr>,
                 \<lparr>product = \<lparr>ident = 2, title = ''b'', price = 5.50,
                    image_url = ''y''\<rparr>, quantity = 3\<rparr>]"
       and l = "\<lparr>product = \<lparr>ident = 1, title = ''a'', price = 10.00, image_url = ''x''\<rparr>,
                 quantity = 1\<rparr>"
       and A = 1]
  by (simp add: decreaseQuantity_Shopping_def)

section \<open>Unknown identities\<close>

text \<open>
  Claim C6. The operations are total functions on lists: none has a failing branch. On
  a cart with no line for \<open>k\<close>, \<open>increaseQuantity k\<close>, the \<open>decreaseQuantity k\<close> of
  \<open>CartScreen\<close>, \<open>removeItem k\<close> and \<open>removeFromCart k\<close> return the cart unchanged.
  The \<open>decreaseQuantity k\<close> of \<open>ShoppingScreen\<close> returns the lines with a positive
  quantity, which is the cart unchanged when its quantities are positive (the quantity
  invariant of a cart), and so on every cart that operations reach from the empty cart.
\<close>

theorem unknown_identity_noop:
  assumes "\<forall>l \<in> set c. line_ident l \<noteq> k"
  shows "increaseQuantity k c = c
       \<and> decreaseQuantity_Cart k c = c
       \<and> removeItem k c = c
       \<and> removeFromCart k c = c
       \<and> decreaseQuantity_Shopping k c = filter (\<lambda>item. quantity item > 0) c
       \<and> ((\<forall>l \<in> set c. 0 < quantity l) \<longrightarrow> decreaseQuantity_Shopping k c = c)
       \<and> (\<forall>ops. c = run [] ops \<longrightarrow> decreaseQuantity_Shopping k c = c)"
proof -
  have reached: "decreaseQuantity_Shopping k c = c" if "c = run [] ops" for ops
  proof -
    have "\<forall>l \<in> set c. counted (quantity l)"
      unfolding that by (rule counted_run) simp
    then have "\<forall>l \<in> set c. 0 < quantity l"
      by (auto simp: counted_def)
    with assms show ?thesis
      by (rule decreaseQuantity_Shopping_absent)
  qed
  have "increaseQuantity k c = c" and "decreaseQuantity_Cart k c = c"
    and "removeItem k c = c" and "removeFromCart k c = c"
    and "decreaseQuantity_Shopping k c = filter (\<lambda>item. quantity item > 0) c"
    using assms
    by (simp_all add: increaseQuantity_def decreaseQuantity_Cart_def removeItem_def
          removeFromCart_def decreaseQuantity_Shopping_def map_quantity_absent filter_ident_absent)
  with reached assms show ?thesis
    by (simp add: decreaseQuantity_Shopping_absent)
qed

text \<open>Witness for C6: identity 7 on a cart that holds item 1 only.\<close>

theorem unknown_identity_noop_witness:
  "decreaseQuantity_Shopping (7::number)
     [\<lparr>product = \<lparr>ident = 1, title = ''a'', price = 10.00, image_url = ''x''\<rparr>, quantity = 1\<rparr>]
   = [\<lparr>product = \<lparr>ident = 1, title = ''a'', price = 10.00, image_url = ''x''\<rparr>, quantity = 1\<rparr>]
   \<and> increaseQuantity 7
     [\<lparr>product = \<lparr>ident = (1::number), title = ''a'', price = 10.00, image_url = ''x''\<rparr>,
       quantity = 1\<rparr>]
   = [\<lparr>product = \<lparr>ident = 1, title = ''a'', price = 10.00, image_url = ''x''\<rparr>, quantity = 1\<rparr>]"
  using unknown_identity_noop
    [of "[\<lparr>product = \<lparr>ident = (1::number), title = ''a'', price = 10.00, image_url = ''x''\<rparr>,
           quantity = 1\<rparr>]" 7]
  by simp

section \<open>The empty cart and the scenario\<close>

text \<open>
  Claim C7. For every identity \<open>A\<close>, removing \<open>A\<close> from the empty cart gives the empty
  cart, in either screen, and on the result the number of lines, the total quantity and
  the total amount are all 0, whichever layout the lines of the list have.
\<close>

theorem removeFromCart_empty:
  "removeFromCart A [] = [] \<and> removeItem A [] = []
   \<and> (length (removeFromCart A []), totalCartItems (removeFromCart A []),
       totalAmount shape (removeFromCart A [])) = (0, 0, Num 0)"
  by (simp add: removeFromCart_def removeItem_def totalCartItems_def totalAmount_def)



section \<open>Frame of decrement and remove\<close>

lemma others_map_quantity:
  "filter (\<lambda>l. line_ident l \<noteq> k)
     (map (\<lambda>item. if line_ident item = k then item\<lparr>quantity := g item\<rparr> else item) c)
   = filter (\<lambda>l. line_ident l \<noteq> k) c"
  by (induction c) simp_all

lemma others_decreaseQuantity_Cart:
  "filter (\<lambda>l. line_ident l \<noteq> k) (decreaseQuantity_Cart k c)
     = filter (\<lambda>l. line_ident l \<noteq> k) c"
  unfolding decreaseQuantity_Cart_def Let_def by (rule others_map_quantity)

lemma others_decreaseQuantity_Shopping:
  assumes "\<forall>l \<in> set c. 0 < quantity l"
  shows "filter (\<lambda>l. line_ident l \<noteq> k) (decreaseQuantity_Shopping k c)
           = filter (\<lambda>l. line_ident l \<noteq> k) c"
  using assms unfolding decreaseQuantity_Shopping_def
  by (induction c) simp_all

lemma subseq_ids_filter: "subseq (map line_ident (filter P c)) (map line_ident c)"
  by (rule subseq_map) simp

lemma subseq_ids_decreaseQuantity_Shopping:
  "subseq (map line_ident (decreaseQuantity_Shopping k c)) (map line_ident c)"
proof -
  have "subseq (map line_ident (decreaseQuantity_Shopping k c))
          (map line_ident (map (\<lambda>item. if line_ident item = k
             then item\<lparr>quantity := quantity item - 1\<rparr> else item) c))"
    unfolding decreaseQuantity_Shopping_def by (rule subseq_ids_filter)
  then show ?thesis
    by (simp only: ids_map_quantity)
qed

lemma distinct_at_most_one:
  "distinct (map f xs) \<Longrightarrow> length (filter (\<lambda>x. f x = k) xs) \<le> 1"
proof (induction xs)
  case Nil
  show ?case by simp
next
  case (Cons a xs)
  show ?case
  proof (cases "f a = k")
    case True
    have "f x \<noteq> k" if "x \<in> set xs" for x
    proof
      assume "f x = k"
      with True that have "f a \<in> f ` set xs" by (metis imageI)
      with Cons.prems show False by simp
    qed
    then have "filter (\<lambda>x. f x = k) xs = []"
      by (simp add: filter_empty_conv)
    with True show ?thesis by simp
  next
    case False
    with Cons show ?thesis by simp
  qed
qed

text \<open>
  Claim C10. On a cart with pairwise different identities and quantities of at least 1,
  each of the two \<open>decreaseQuantity k\<close>, \<open>removeItem k\<close> and \<open>removeFromCart k\<close>
  returns a list whose lines with an identity other than \<open>k\<close> are those of the cart,
  each as it was and in the same order, and whose identities are a subsequence of the
  cart's (no line is added or moved); the cart has at most one line with identity \<open>k\<close>,
  so at most that one line is changed or dropped.
\<close>

theorem frame_decrement_remove:
  assumes "distinct (map line_ident c)" and "\<forall>l \<in> set c. 1 \<le> quantity l"
  shows "(\<forall>op \<in> {decreaseQuantity_Cart k, decreaseQuantity_Shopping k,
                  removeItem k, removeFromCart k}.
            filter (\<lambda>l. line_ident l \<noteq> k) (op c) = filter (\<lambda>l. line_ident l \<noteq> k) c
          \<and> subseq (map line_ident (op c)) (map line_ident c))
       \<and> length (filter (\<lambda>l. line_ident l = k) c) \<le> 1"
proof -
  from assms(2) have pos: "\<forall>l \<in> set c. 0 < quantity l" by auto
  have "subseq (map line_ident (decreaseQuantity_Cart k c)) (map line_ident c)"
    by (simp add: ids_decreaseQuantity_Cart)
  moreover have "subseq (map line_ident (removeItem k c)) (map line_ident c)"
    unfolding removeItem_def by (rule subseq_ids_filter)
  moreover have "subseq (map line_ident (removeFromCart k c)) (map line_ident c)"
    unfolding removeFromCart_def by (rule subseq_ids_filter)
  moreover have "filter (\<lambda>l. line_ident l \<noteq> k) (removeItem k c)
                   = filter (\<lambda>l. line_ident l \<noteq> k) c"
    by (simp add: removeItem_def)
  moreover have "filter (\<lambda>l. line_ident l \<noteq> k) (removeFromCart k c)
                   = filter (\<lambda>l. line_ident l \<noteq> k) c"
    by (simp add: removeFromCart_def)
  ultimately show ?thesis
    using others_decreaseQuantity_Cart [of k c] others_decreaseQuantity_Shopping [OF pos, of k]
      subseq_ids_decreaseQuantity_Shopping [of k c] distinct_at_most_one [OF assms(1), of k]
    by simp
qed

text \<open>Witness for C10: identity 1 on a cart with item 1 at quantity 1 and item 2 at 3.\<close>

theorem frame_decrement_remove_witness:
  "filter (\<lambda>l. line_ident l \<noteq> (1::number))
     (decreaseQuantity_Shopping 1
        [\<lparr>product = \<lparr>ident = 1, title = ''a'', price = 10.00, image_url = ''x''\<rparr>,
           quantity = 1\<rparr>,
         \<lparr>product = \<lparr>ident = 2, title = ''b'', price = 5.50, image_url = ''y''\<rparr>,
           quantity = 3\<rparr>])
   = [\<lparr>product = \<lparr>ident = 2, title = ''b'', price = 5.50, image_url = ''y''\<rparr>, quantity = 3\<rparr>]
   \<and> filter (\<lambda>l. line_ident l \<noteq> (1::number))
     (decreaseQuantity_Cart 1
        [\<lparr>product = \<lparr>ident = 1, title = ''a'', price = 10.00, image_url = ''x''\<rparr>,
           quantity = 1\<rparr>,
         \<lparr>product = \<lparr>ident = 2, title = ''b'', price = 5.50, image_url = ''y''\<rparr>,
           quantity = 3\<rparr>])
   = [\<lparr>product = \<lparr>ident = 2, title = ''b'', price = 5.50, image_url = ''y''\<rparr>, quantity = 3\<rparr>]"
  using frame_decrement_remove
    [of "[\<lparr>product = \<lparr>ident = 1, title = ''a'', price = 10.00, image_url = ''x''\<rparr>,
           quantity = 1\<rparr>,
          \<lparr>product = \<lparr>ident = 2, title = ''b'', price = 5.50, image_url = ''y''\<rparr>,
           quantity = 3\<rparr>] :: (number, unit) cart" 1]
  by simp

end
